theory Spec2Isabelle
  imports Complex_Main
begin

section \<open>Errors raised by the Python code\<close>

text \<open>
  Every exception the modelled code can raise is a value of \<open>error\<close>; a function that can
  raise returns \<open>error + 'a\<close> with \<open>Inl\<close> for the exception.
  \<open>UnboundLocalError\<close> is Python's subclass of \<open>NameError\<close> raised when a local
  variable is read before any assignment to it.
\<close>

datatype error =
    KeyError string
  | IndexError
  | TypeError string
  | AttributeError string
  | UnboundLocalError string
  | ExternalError string

section \<open>Feature derivation (ingest.py, prep_hurricane_data)\<close>

subsection \<open>Data\<close>

text \<open>
  An observation is the dictionary built by \<open>nhc\<close> and \<open>past_track\<close>: a timestamp and four
  measurements. The timestamp is an instant in UTC, counted in nanoseconds since the Unix
  epoch (the resolution of the pandas column after \<open>pd.to_datetime(..., utc=True)\<close>).
  The measurements are Python floats; they are idealised as exact rationals, and the two
  IEEE results that decide which rows \<open>dropna\<close> removes (infinity and NaN) are kept
  explicit in \<open>fval\<close>.
\<close>

record observation =
  time :: int
  wind :: rat
  lat :: rat
  lon :: rat
  pressure :: rat

datatype fval = Fin rat | PInf | NInf | NaN

record feature_row =
  row_time :: int
  row_wind :: rat
  row_lat :: rat
  row_lon :: rat
  row_pressure :: rat
  max_wind :: fval
  delta_wind :: fval
  min_pressure :: fval
  zonal_speed :: fval
  meridonal_speed :: fval
  year :: int
  month :: int
  day :: int
  hour :: int

subsection \<open>Series operations of pandas used by the function\<close>

text \<open>
  A float or datetime series with missing entries is a list of options: \<open>None\<close> is NaN
  (or NaT). \<open>Series.shift(periods)\<close> moves the values down by \<open>periods\<close> positions (up
  when \<open>periods\<close> is negative), keeps the length and fills the holes with missing values.
\<close>

definition shift :: "int \<Rightarrow> 'a list \<Rightarrow> 'a option list" where
  "shift periods xs =
     (if 0 \<le> periods
      then take (length xs) (replicate (nat periods) None @ map Some xs)
      else drop (nat (- periods)) (map Some xs)
             @ replicate (min (nat (- periods)) (length xs)) None)"

text \<open>
  \<open>Series.cummax()\<close> and \<open>Series.cummin()\<close> skip missing entries: a missing entry stays
  missing in the result and does not change the running extremum.
\<close>

fun cum_acc :: "(rat \<Rightarrow> rat \<Rightarrow> rat) \<Rightarrow> rat option \<Rightarrow> rat option list \<Rightarrow> rat option list" where
  "cum_acc f acc [] = []"
| "cum_acc f acc (None # xs) = None # cum_acc f acc xs"
| "cum_acc f None (Some x # xs) = Some x # cum_acc f (Some x) xs"
| "cum_acc f (Some a) (Some x # xs) = Some (f a x) # cum_acc f (Some (f a x)) xs"

definition cummax :: "rat option list \<Rightarrow> rat option list" where
  "cummax xs = cum_acc max None xs"

definition cummin :: "rat option list \<Rightarrow> rat option list" where
  "cummin xs = cum_acc min None xs"

text \<open>Subtraction of two series entries: missing if either side is missing.\<close>

fun sub_opt :: "('a::minus) option \<Rightarrow> 'a option \<Rightarrow> 'a option" where
  "sub_opt (Some a) (Some b) = Some (a - b)"
| "sub_opt _ _ = None"

text \<open>
  \<open>.dt.seconds\<close> of a timedelta is its seconds component: the whole seconds left after
  the whole days are taken out, between 0 and 86399. It is not the total number of
  seconds. On a missing timedelta it is NaN.
\<close>

definition dt_seconds :: "int option \<Rightarrow> rat option" where
  "dt_seconds d =
     (case d of None \<Rightarrow> None
      | Some ns \<Rightarrow> Some (of_int ((ns mod 86400000000000) div 1000000000)))"

definition div_const :: "rat option \<Rightarrow> rat \<Rightarrow> rat option" where
  "div_const x c = (case x of None \<Rightarrow> None | Some a \<Rightarrow> Some (a / c))"

text \<open>
  Float division of two series entries. Nothing is raised on a zero divisor: a non-zero
  value over zero is an infinity, zero over zero is NaN.
\<close>

fun fdiv :: "rat option \<Rightarrow> rat option \<Rightarrow> fval" where
  "fdiv (Some a) (Some b) =
     (if b \<noteq> 0 then Fin (a / b)
      else if 0 < a then PInf
      else if a < 0 then NInf
      else NaN)"
| "fdiv _ _ = NaN"

fun fval_of :: "rat option \<Rightarrow> fval" where
  "fval_of None = NaN"
| "fval_of (Some a) = Fin a"

subsection \<open>Calendar fields\<close>

text \<open>
  \<open>.dt.year\<close>, \<open>.dt.month\<close>, \<open>.dt.day\<close> and \<open>.dt.hour\<close> of a UTC instant, in the
  proleptic Gregorian calendar: the day number since 1970-01-01 is converted to a civil
  date by counting 400-year eras of 146097 days, with the year starting in March.
\<close>

definition days_of :: "int \<Rightarrow> int" where
  "days_of t = t div 86400000000000"

definition civil_from_days :: "int \<Rightarrow> int \<times> int \<times> int" where
  "civil_from_days z0 =
     (let z = z0 + 719468;
          era = z div 146097;
          doe = z - era * 146097;
          yoe = (doe - doe div 1460 + doe div 36524 - doe div 146096) div 365;
          y = yoe + era * 400;
          doy = doe - (365 * yoe + yoe div 4 - yoe div 100);
          mp = (5 * doy + 2) div 153;
          d = doy - (153 * mp + 2) div 5 + 1;
          m = (if mp < 10 then mp + 3 else mp - 9)
      in (if m \<le> 2 then y + 1 else y, m, d))"

definition dt_year :: "int \<Rightarrow> int" where
  "dt_year t = fst (civil_from_days (days_of t))"

definition dt_month :: "int \<Rightarrow> int" where
  "dt_month t = fst (snd (civil_from_days (days_of t)))"

definition dt_day :: "int \<Rightarrow> int" where
  "dt_day t = snd (snd (civil_from_days (days_of t)))"

definition dt_hour :: "int \<Rightarrow> int" where
  "dt_hour t = (t mod 86400000000000) div 3600000000000"

subsection \<open>prep_hurricane_data\<close>

text \<open>
  The columns are computed on the observations sorted by time (\<open>sort_values(by="time")\<close>;
  the sort is taken stable, pandas leaves the order of equal timestamps open).
  \<open>lag_seconds\<close> is the expression
  \<open>(df["time"] - df["time"].shift(lag)).dt.seconds\<close> that all three rates divide by.
\<close>

definition lag_seconds :: "int \<Rightarrow> observation list \<Rightarrow> rat option list" where
  "lag_seconds lag df =
     map2 (\<lambda>t s. dt_seconds (sub_opt (Some t) s)) (map time df) (shift lag (map time df))"

definition max_wind_col :: "observation list \<Rightarrow> rat option list" where
  "max_wind_col df = cummax (map (Some \<circ> wind) df)"

definition delta_wind_col :: "int \<Rightarrow> observation list \<Rightarrow> fval list" where
  "delta_wind_col lag df =
     map2 fdiv
       (map2 sub_opt (cummax (map (Some \<circ> wind) df)) (cummax (shift lag (map wind df))))
       (map (\<lambda>s. div_const s 21600) (lag_seconds lag df))"

definition min_pressure_col :: "observation list \<Rightarrow> rat option list" where
  "min_pressure_col df = cummin (map (Some \<circ> pressure) df)"

definition zonal_speed_col :: "int \<Rightarrow> observation list \<Rightarrow> fval list" where
  "zonal_speed_col lag df =
     map2 fdiv
       (map2 sub_opt (map (Some \<circ> lat) df) (shift lag (map lat df)))
       (map (\<lambda>s. div_const s 3600) (lag_seconds lag df))"

definition meridonal_speed_col :: "int \<Rightarrow> observation list \<Rightarrow> fval list" where
  "meridonal_speed_col lag df =
     map2 fdiv
       (map2 sub_opt (map (Some \<circ> lon) df) (shift lag (map lon df)))
       (map (\<lambda>s. div_const s 3600) (lag_seconds lag df))"

text \<open>\<open>df.assign(...)\<close>: row \<open>i\<close> of the table takes entry \<open>i\<close> of every column.\<close>

definition assign_row :: "int \<Rightarrow> observation list \<Rightarrow> nat \<Rightarrow> feature_row" where
  "assign_row lag df i =
     \<lparr> row_time = time (df ! i),
       row_wind = wind (df ! i),
       row_lat = lat (df ! i),
       row_lon = lon (df ! i),
       row_pressure = pressure (df ! i),
       max_wind = fval_of (max_wind_col df ! i),
       delta_wind = delta_wind_col lag df ! i,
       min_pressure = fval_of (min_pressure_col df ! i),
       zonal_speed = zonal_speed_col lag df ! i,
       meridonal_speed = meridonal_speed_col lag df ! i,
       year = dt_year (time (df ! i)),
       month = dt_month (time (df ! i)),
       day = dt_day (time (df ! i)),
       hour = dt_hour (time (df ! i)) \<rparr>"

text \<open>\<open>dropna()\<close> keeps the rows in which no field is NaN; an infinity is not missing.\<close>

definition has_na :: "feature_row \<Rightarrow> bool" where
  "has_na r \<longleftrightarrow>
     max_wind r = NaN \<or> delta_wind r = NaN \<or> min_pressure r = NaN
     \<or> zonal_speed r = NaN \<or> meridonal_speed r = NaN"

definition dropna :: "feature_row list \<Rightarrow> feature_row list" where
  "dropna rows = filter (\<lambda>r. \<not> has_na r) rows"



text \<open>
  A data frame built from an empty list has no columns, so sorting it by \<open>"time"\<close> raises
  \<open>KeyError\<close>.
\<close>

definition prep_hurricane_data :: "observation list \<Rightarrow> int \<Rightarrow> error + feature_row list" where
  "prep_hurricane_data observations lag =
     (if observations = [] then Inl (KeyError ''time'')
      else let df = sort_key time observations
           in Inr (dropna (map (assign_row lag df) [0..<length df])))"

section \<open>Sparse feature vectors (plotting_utils.py)\<close>

text \<open>
  Python values that flow through the descaling code: a number, or a (possibly nested)
  array or list of values. The model output \<open>result\<close> is such an array; the literal
  \<open>0\<close> of \<open>[0] * vector_length\<close> is \<open>Num 0\<close>.
\<close>

datatype pyval = Num rat | Arr "pyval list"

text \<open>
  \<open>features = [0] * vector_length\<close> is the empty list for a negative length. The
  assignment \<open>features[feature_index] = feature_value\<close> follows Python's list indexing:
  an index from \<open>-len\<close> to \<open>-1\<close> counts from the end, anything outside
  \<open>-len .. len - 1\<close> raises \<open>IndexError\<close>.
\<close>

definition generate_sparse_feature_vector :: "int \<Rightarrow> int \<Rightarrow> pyval \<Rightarrow> error + pyval list" where
  "generate_sparse_feature_vector vector_length feature_index feature_value =
     (let features = replicate (nat vector_length) (Num 0);
          n = int (length features)
      in if 0 \<le> feature_index \<and> feature_index < n
           then Inr (features[nat feature_index := feature_value])
         else if - n \<le> feature_index \<and> feature_index < 0
           then Inr (features[nat (n + feature_index) := feature_value])
         else Inl IndexError)"

section \<open>Live inference (deploy.py, run_live_inference)\<close>

subsection \<open>Effects\<close>

text \<open>
  The function prints and calls the model; both are recorded, in order, as events. A run
  is the events emitted so far together with either the exception that ended it or its
  value. The printed numbers are kept as values, not formatted.
\<close>

datatype event =
    Print_model_type string
  | Print_running string
  | Print_not_enough string
  | Predict "feature_row list" int
  | Print_rule
  | Print_result nat string string pyval

type_synonym 'a run = "event list \<times> (error + 'a)"

definition ret :: "'a \<Rightarrow> 'a run" where
  "ret a = ([], Inr a)"

definition raise :: "error \<Rightarrow> 'a run" where
  "raise e = ([], Inl e)"

definition emit :: "event \<Rightarrow> unit run" where
  "emit ev = ([ev], Inr ())"

definition lift :: "error + 'a \<Rightarrow> 'a run" where
  "lift r = ([], r)"

definition and_then :: "'a run \<Rightarrow> ('a \<Rightarrow> 'b run) \<Rightarrow> 'b run" where
  "and_then m f =
     (case m of
        (tr, Inl e) \<Rightarrow> (tr, Inl e)
      | (tr, Inr a) \<Rightarrow> (case f a of (tr', r) \<Rightarrow> (tr @ tr', r)))"

definition bind_err :: "error + 'a \<Rightarrow> ('a \<Rightarrow> error + 'b) \<Rightarrow> error + 'b" where
  "bind_err r f = (case r of Inl e \<Rightarrow> Inl e | Inr a \<Rightarrow> f a)"

text \<open>A \<open>for\<close> loop over a list whose body updates the local variables.\<close>

primrec for_each :: "'x list \<Rightarrow> ('x \<Rightarrow> 's \<Rightarrow> 's run) \<Rightarrow> 's \<Rightarrow> 's run" where
  "for_each [] body s = ret s"
| "for_each (x # xs) body s = and_then (body x s) (for_each xs body)"

subsection \<open>Values and local variables\<close>

text \<open>
  Indexing an array with a non-negative index. The values indexed are numpy arrays (the
  model output and the scaler output); indexing a scalar of such an array raises
  \<open>IndexError\<close>, as an index out of range does.
\<close>

fun subscript :: "pyval \<Rightarrow> nat \<Rightarrow> error + pyval" where
  "subscript (Arr xs) k = (if k < length xs then Inr (xs ! k) else Inl IndexError)"
| "subscript (Num a) k = Inl IndexError"

text \<open>
  The local variables of \<open>run_live_inference\<close> that live across loop iterations. The
  three result lists are unbound until their first assignment. \<open>model\<close> holds the
  adapter until the singular longitude branch rebinds it to the string \<open>"long"\<close>.
\<close>

datatype model_binding = Adapter | Str string

record locals =
  model :: model_binding
  wind_result :: "pyval list list option"
  lat_result :: "pyval list list option"
  long_result :: "pyval list list option"

text \<open>
  A storm as \<open>nhc\<close> returns it. Its entry list is built there from the current
  observation of the feed, appended first, followed by the observations of the past
  track; so it is never empty.
\<close>

record storm =
  storm_name :: string
  current :: observation
  past_track :: "observation list"

definition entries :: "storm \<Rightarrow> observation list" where
  "entries st = current st # past_track st"

text \<open>
  The pickled scaler is not part of the sources: its \<open>inverse_transform\<close> is a
  parameter of the model. So is what a \<open>predict\<close> method computes. Either may raise.
\<close>

type_synonym scaler = "pyval list list \<Rightarrow> error + pyval"

type_synonym predictor = "feature_row list \<Rightarrow> int \<Rightarrow> error + pyval"

subsection \<open>The model adapter\<close>

text \<open>
  The class \<open>BidrectionalLstmHurricaneModel\<close> as far as \<open>run_live_inference\<close> uses
  it: the parameters of its constructor after \<open>self\<close>, each with the flag whether it has
  a default value; what running the body of the constructor raises, if anything; and
  its \<open>predict\<close> method, if it has one.
\<close>

record adapter_class =
  init_params :: "(string \<times> bool) list"
  init_raises :: "error option"
  predict_method :: "predictor option"

text \<open>
  The call at deploy.py lines 49 to 50 passes three positional arguments and the keyword
  \<open>model_path\<close>. Python binds it only if the constructor has at least three
  parameters, \<open>model_path\<close> is one of the later ones, and every other later parameter
  has a default; otherwise the call raises \<open>TypeError\<close> before the body runs.
\<close>

definition call_binds :: "(string \<times> bool) list \<Rightarrow> bool" where
  "call_binds params \<longleftrightarrow>
     3 \<le> length params
     \<and> ''model_path'' \<in> set (map fst (drop 3 params))
     \<and> list_all (\<lambda>(name, has_default). has_default \<or> name = ''model_path'') (drop 3 params)"

definition construct :: "adapter_class \<Rightarrow> error + unit" where
  "construct cls =
     (if call_binds (init_params cls)
      then (case init_raises cls of None \<Rightarrow> Inr () | Some e \<Rightarrow> Inl e)
      else Inl (TypeError ''__init__''))"

text \<open>
  The class as bd_lstm_td.py defines it (line 21): no parameter \<open>model_path\<close>, and no
  method \<open>predict\<close>. The call of deploy.py does not bind to these parameters, so the
  body of this constructor is never run by it and \<open>init_raises\<close> plays no part.
\<close>

definition BidrectionalLstmHurricaneModel :: adapter_class where
  "BidrectionalLstmHurricaneModel =
     \<lparr> init_params =
         [(''shape'', False), (''predicted_var'', False), (''loss'', True),
          (''optimizer'', True), (''validation_split'', True), (''mode'', True),
          (''dropout'', True), (''args'', True), (''scaler'', True)],
       init_raises = None,
       predict_method = None \<rparr>"

subsection \<open>Descaling one value\<close>

text \<open>
  The step repeated in every branch,
  \<open>xs.append(_generate_sparse_feature_vector(n, place, v))\<close> followed by
  \<open>scaler.inverse_transform(xs)[0][read]\<close>, with the list \<open>xs\<close> as it is before the
  append. It returns the list after the append and the value that is printed.
\<close>

definition descale :: "scaler \<Rightarrow> pyval list list \<Rightarrow> int \<Rightarrow> int \<Rightarrow> pyval \<Rightarrow> nat
    \<Rightarrow> error + (pyval list list \<times> pyval)" where
  "descale sc xs n place v read =
     bind_err (generate_sparse_feature_vector n place v) (\<lambda>vec.
     bind_err (sc (xs @ [vec])) (\<lambda>inv.
     bind_err (subscript inv 0) (\<lambda>row.
     bind_err (subscript row read) (\<lambda>y.
     Inr (xs @ [vec], y)))))"

subsection \<open>The two loop bodies\<close>

definition universal_day :: "scaler \<Rightarrow> pyval \<Rightarrow> nat \<Rightarrow> locals \<Rightarrow> locals run" where
  "universal_day sc result d lv =
     (let wind_index = 0; lat_index = 1; long_index = 2 in
      and_then (lift (bind_err (subscript result d) (\<lambda>r. subscript r wind_index))) (\<lambda>w.
      and_then (lift (descale sc [] 11 2 w 2)) (\<lambda>(wr, wy).
      and_then (emit (Print_result (d + 1) ''universal'' ''wind'' wy)) (\<lambda>_.
      and_then (lift (bind_err (subscript result d) (\<lambda>r. subscript r lat_index))) (\<lambda>la.
      and_then (lift (descale sc [] 11 0 la 0)) (\<lambda>(lr, ly).
      and_then (emit (Print_result (d + 1) ''universal'' ''lat'' ly)) (\<lambda>_.
      and_then (lift (bind_err (subscript result d) (\<lambda>r. subscript r long_index))) (\<lambda>lo.
      and_then (lift (descale sc [] 11 1 lo 1)) (\<lambda>(gr, gy).
      and_then (emit (Print_result (d + 1) ''universal'' ''long'' gy)) (\<lambda>_.
      ret (lv\<lparr> wind_result := Some wr, lat_result := Some lr, long_result := Some gr \<rparr>)))))))))))"

definition singular_day :: "scaler \<Rightarrow> string \<Rightarrow> pyval \<Rightarrow> nat \<Rightarrow> locals \<Rightarrow> locals run" where
  "singular_day sc model_type result d lv =
     (if model_type = ''wind'' then
        and_then (lift (subscript result d)) (\<lambda>v.
        and_then (lift (descale sc [] 11 2 v 2)) (\<lambda>(wr, wy).
        and_then (emit (Print_result (d + 1) ''singular'' ''wind'' wy)) (\<lambda>_.
        ret (lv\<lparr> wind_result := Some wr \<rparr>))))
      else if model_type = ''lat'' then
        (case lat_result lv of
           None \<Rightarrow> raise (UnboundLocalError ''lat_result'')
         | Some xs \<Rightarrow>
             and_then (lift (subscript result d)) (\<lambda>v.
             and_then (lift (descale sc xs 11 0 v 0)) (\<lambda>(lr, ly).
             and_then (emit (Print_result (d + 1) ''singular'' ''lat'' ly)) (\<lambda>_.
             ret (lv\<lparr> lat_result := Some lr \<rparr>)))))
      else
        and_then (lift (subscript result d)) (\<lambda>v.
        and_then (lift (descale sc [] 11 1 v 1)) (\<lambda>(gr, gy).
        and_then (emit (Print_result (d + 1) ''singular'' ''long'' gy)) (\<lambda>_.
        ret (lv\<lparr> model := Str ''long'', long_result := Some gr \<rparr>)))))"

subsection \<open>One storm, and the whole run\<close>

text \<open>
  The features are built before the length of the entry list is tested, so an exception
  of \<open>prep_hurricane_data\<close> ends the run for a storm of any length.
\<close>

text \<open>
  \<open>model.predict\<close> is looked up on what \<open>model\<close> holds: a string has no such
  attribute, and an adapter has it only if its class defines it.
\<close>

definition process_storm :: "adapter_class \<Rightarrow> scaler \<Rightarrow> string \<Rightarrow> int \<Rightarrow> storm \<Rightarrow> locals
    \<Rightarrow> locals run" where
  "process_storm cls sc model_type lag st lv =
     and_then (emit (Print_running (storm_name st))) (\<lambda>_.
     and_then (lift (prep_hurricane_data (entries st) lag)) (\<lambda>df.
     if length (entries st) \<le> 5 then
       and_then (emit (Print_not_enough (storm_name st))) (\<lambda>_. ret lv)
     else
       (case model lv of
          Str s \<Rightarrow> raise (AttributeError ''predict'')
        | Adapter \<Rightarrow>
            (case predict_method cls of
               None \<Rightarrow> raise (AttributeError ''predict'')
             | Some predict \<Rightarrow>
                 and_then (emit (Predict df lag)) (\<lambda>_.
                 and_then (lift (predict df lag)) (\<lambda>result.
                 and_then (emit Print_rule) (\<lambda>_.
                 if model_type = ''universal''
                 then for_each [0..<4] (universal_day sc result) lv
                 else for_each [0..<3] (singular_day sc model_type result) lv)))))))"

definition select_model_type :: "bool \<Rightarrow> string \<Rightarrow> string" where
  "select_model_type universal typesearch =
     (if universal then ''universal''
      else if typesearch = ''sequential'' then ''wind''
      else if typesearch = ''sequential_1'' then ''lat''
      else ''long'')"

definition initial_locals :: locals where
  "initial_locals =
     \<lparr> model = Adapter, wind_result = None, lat_result = None, long_result = None \<rparr>"

text \<open>
  The run: the model type is printed, the adapter is constructed, and only then the
  storms are fetched and processed. \<open>cls\<close> is the class that the name
  \<open>BidrectionalLstmHurricaneModel\<close> is bound to. \<open>live_storms\<close> is what \<open>nhc()\<close>
  returns: \<open>None\<close> when there is no active storm (the loop over it then raises
  \<open>TypeError\<close>), otherwise the list of storms.
\<close>

definition run_live_inference :: "adapter_class \<Rightarrow> scaler \<Rightarrow> bool \<Rightarrow> string \<Rightarrow> storm list option
    \<Rightarrow> locals run" where
  "run_live_inference cls sc universal typesearch live_storms =
     (let model_type = select_model_type universal typesearch;
          lag = 5
      in and_then (emit (Print_model_type model_type)) (\<lambda>_.
         and_then (lift (construct cls)) (\<lambda>_.
         case live_storms of
           None \<Rightarrow> raise (TypeError ''NoneType object is not iterable'')
         | Some storms \<Rightarrow> for_each storms (process_storm cls sc model_type lag) initial_locals)))"

subsection \<open>Notation for the statements\<close>

text \<open>
  The three 11-vectors that the universal branch hands to the scaler, written out: a
  value at index 2 (wind), at index 0 (latitude) and at index 1 (longitude), zeros
  elsewhere.
\<close>

definition wind_vector :: "pyval \<Rightarrow> pyval list" where
  "wind_vector v = [Num 0, Num 0, v, Num 0, Num 0, Num 0, Num 0, Num 0, Num 0, Num 0, Num 0]"



text \<open>What the run prints for storms that are skipped for lack of data.\<close>

definition skip_events :: "storm list \<Rightarrow> event list" where
  "skip_events storms =
     concat (map (\<lambda>s. [Print_running (storm_name s), Print_not_enough (storm_name s)]) storms)"

section \<open>Example inputs\<close>

text \<open>
  Six observations spaced exactly six hours apart, starting at \<open>t0\<close>, with winds
  30, 35, 40, 45, 50, 55 knots; positions and pressures are left open.
\<close>

definition six_hourly :: "int \<Rightarrow> (nat \<Rightarrow> rat) \<Rightarrow> (nat \<Rightarrow> rat) \<Rightarrow> (nat \<Rightarrow> rat) \<Rightarrow> observation list" where
  "six_hourly t0 la lo p =
     [ \<lparr> time = t0, wind = 30, lat = la 0, lon = lo 0, pressure = p 0 \<rparr>,
       \<lparr> time = t0 + 21600000000000, wind = 35, lat = la 1, lon = lo 1, pressure = p 1 \<rparr>,
       \<lparr> time = t0 + 43200000000000, wind = 40, lat = la 2, lon = lo 2, pressure = p 2 \<rparr>,
       \<lparr> time = t0 + 64800000000000, wind = 45, lat = la 3, lon = lo 3, pressure = p 3 \<rparr>,
       \<lparr> time = t0 + 86400000000000, wind = 50, lat = la 4, lon = lo 4, pressure = p 4 \<rparr>,
       \<lparr> time = t0 + 108000000000000, wind = 55, lat = la 5, lon = lo 5, pressure = p 5 \<rparr> ]"

text \<open>
  The same track from 2020-09-15 00:00 UTC, moving one degree north and one degree west
  between observations while the pressure falls by one millibar.
\<close>

definition example_track :: "observation list" where
  "example_track =
     six_hourly 1600128000000000000 (\<lambda>k. 10 + of_nat k) (\<lambda>k. - 50 - of_nat k) (\<lambda>k. 1000 - of_nat k)"



text \<open>
  A scaler whose inverse transform maps entry \<open>j\<close> of every row \<open>x\<close> to
  \<open>x * scale j + center j\<close>, the inverse of a centring and scaling fitted per feature.
\<close>

fun rescale :: "rat \<Rightarrow> rat \<Rightarrow> pyval \<Rightarrow> pyval" where
  "rescale s c (Num x) = Num (x * s + c)"
| "rescale s c (Arr xs) = Arr xs"

definition example_scaler :: scaler where
  "example_scaler X =
     Inr (Arr (map (\<lambda>row. Arr (map (\<lambda>(j, v). rescale (2 + of_nat j) (100 * of_nat j) v)
                                   (zip [0..<length row] row))) X))"

text \<open>
  A model whose output for every feature table has four forecast steps of three values
  (wind, latitude, longitude), and two storms: one with the six observations of the
  example track, one with only its first three. The current observation is the latest.
\<close>

definition example_result :: pyval where
  "example_result =
     Arr [Arr [Num 0, Num 10, Num 20], Arr [Num 1, Num 11, Num 21],
          Arr [Num 2, Num 12, Num 22], Arr [Num 3, Num 13, Num 23]]"

definition example_predict :: predictor where
  "example_predict df lag = Inr example_result"

text \<open>A class whose constructor takes the call of deploy.py and that has \<open>predict\<close>.\<close>

definition example_adapter :: adapter_class where
  "example_adapter =
     \<lparr> init_params =
         [(''shape'', False), (''predicted_var'', False), (''scaler_path'', False),
          (''model_path'', True)],
       init_raises = None,
       predict_method = Some example_predict \<rparr>"

definition example_storm :: storm where
  "example_storm =
     \<lparr> storm_name = ''TEST'', current = example_track ! 5, past_track = take 5 example_track \<rparr>"

definition short_storm :: storm where
  "short_storm =
     \<lparr> storm_name = ''SHORT'', current = example_track ! 2, past_track = take 2 example_track \<rparr>"

section \<open>Properties of the series operations\<close>

lemma length_shift: "length (shift k xs) = length xs"
  by (auto simp: shift_def)

lemma shift_nth:
  assumes "0 \<le> k" "i < length xs"
  shows "shift k xs ! i = (if i < nat k then None else Some (xs ! (i - nat k)))"
  using assms by (auto simp: shift_def nth_append)

lemma length_cum_acc: "length (cum_acc f acc xs) = length xs"
  by (induction f acc xs rule: cum_acc.induct) auto

text \<open>The running extremum is missing exactly where the input is.\<close>

lemma cum_acc_None_iff:
  "i < length xs \<Longrightarrow> cum_acc f acc xs ! i = None \<longleftrightarrow> xs ! i = None"
proof (induction f acc xs arbitrary: i rule: cum_acc.induct)
  case (1 f acc)
  then show ?case by simp
next
  case (2 f acc xs)
  then show ?case by (cases i) auto
next
  case (3 f x xs)
  then show ?case by (cases i) auto
next
  case (4 f a x xs)
  then show ?case by (cases i) auto
qed

lemma length_lag_seconds: "length (lag_seconds lag df) = length df"
  by (simp add: lag_seconds_def length_shift)

lemma lag_seconds_nth:
  assumes "i < length df"
  shows "lag_seconds lag df ! i =
         dt_seconds (sub_opt (Some (time (df ! i))) (shift lag (map time df) ! i))"
  using assms by (simp add: lag_seconds_def length_shift)

lemma zonal_speed_col_nth:
  assumes "i < length df"
  shows "zonal_speed_col lag df ! i =
         fdiv (sub_opt (Some (lat (df ! i))) (shift lag (map lat df) ! i))
              (div_const (lag_seconds lag df ! i) 3600)"
  using assms by (simp add: zonal_speed_col_def length_shift length_lag_seconds)

lemma meridonal_speed_col_nth:
  assumes "i < length df"
  shows "meridonal_speed_col lag df ! i =
         fdiv (sub_opt (Some (lon (df ! i))) (shift lag (map lon df) ! i))
              (div_const (lag_seconds lag df ! i) 3600)"
  using assms by (simp add: meridonal_speed_col_def length_shift length_lag_seconds)

lemma delta_wind_col_nth:
  assumes "i < length df"
  shows "delta_wind_col lag df ! i =
         fdiv (sub_opt (cummax (map (Some \<circ> wind) df) ! i)
                       (cummax (shift lag (map wind df)) ! i))
              (div_const (lag_seconds lag df ! i) 21600)"
  using assms
  by (simp add: delta_wind_col_def length_shift length_lag_seconds cummax_def length_cum_acc)

section \<open>Which rows survive dropna\<close>

text \<open>A row with fewer than \<open>lag\<close> rows before it has no lagged latitude and is dropped.\<close>

lemma early_row_has_na:
  assumes "i < length df" "int i < lag"
  shows "has_na (assign_row lag df i)"
proof -
  have "shift lag (map lat df) ! i = None"
    using assms by (simp add: shift_nth)
  then have "zonal_speed_col lag df ! i = NaN"
    using assms by (simp add: zonal_speed_col_nth)
  then show ?thesis by (simp add: has_na_def assign_row_def)
qed

text \<open>A later row is kept when the divisor of its rates is not zero.\<close>

lemma late_row_no_na:
  assumes "i < length df" "0 \<le> lag" "lag \<le> int i" "lag_seconds lag df ! i \<noteq> Some 0"
  shows "\<not> has_na (assign_row lag df i)"
proof -
  have k: "\<not> i < nat lag" using assms by linarith
  obtain s where s: "lag_seconds lag df ! i = Some s" "s \<noteq> 0"
    using assms k by (auto simp: lag_seconds_nth shift_nth dt_seconds_def)
  have z: "zonal_speed_col lag df ! i \<noteq> NaN"
    using assms k s by (simp add: zonal_speed_col_nth shift_nth div_const_def)
  have m: "meridonal_speed_col lag df ! i \<noteq> NaN"
    using assms k s by (simp add: meridonal_speed_col_nth shift_nth div_const_def)
  have "cummax (map (Some \<circ> wind) df) ! i \<noteq> None"
    using assms by (simp add: cummax_def cum_acc_None_iff)
  moreover have "cummax (shift lag (map wind df)) ! i \<noteq> None"
    using assms k by (simp add: cummax_def cum_acc_None_iff length_shift shift_nth)
  ultimately have d: "delta_wind_col lag df ! i \<noteq> NaN"
    using assms s by (auto simp: delta_wind_col_nth div_const_def)
  have mw: "max_wind_col df ! i \<noteq> None"
    using assms by (simp add: max_wind_col_def cummax_def cum_acc_None_iff)
  have mp: "min_pressure_col df ! i \<noteq> None"
    using assms by (simp add: min_pressure_col_def cummin_def cum_acc_None_iff)
  from mw mp z m d show ?thesis
    by (auto simp: has_na_def assign_row_def)
qed

lemma filter_upt_prefix_false:
  assumes "\<And>i. i < l \<Longrightarrow> i < n \<Longrightarrow> \<not> P (f i)"
  shows "filter P (map f [0..<n]) = filter P (map f [min l n..<n])"
proof -
  have "[0..<n] = [0..<min l n] @ [min l n..<n]"
    by (metis le0 min.cobounded2 upt_add_eq_append le_add_diff_inverse)
  then have "filter P (map f [0..<n]) =
             filter P (map f [0..<min l n]) @ filter P (map f [min l n..<n])"
    by (metis filter_append map_append)
  moreover have "filter P (map f [0..<min l n]) = []"
    using assms by (auto simp: filter_empty_conv)
  ultimately show ?thesis by simp
qed


lemma dropna_exact:
  assumes "0 \<le> lag"
    and "\<And>i. i < length df \<Longrightarrow> lag \<le> int i \<Longrightarrow> lag_seconds lag df ! i \<noteq> Some 0"
  shows "dropna (map (assign_row lag df) [0..<length df]) =
         map (assign_row lag df) [min (nat lag) (length df)..<length df]"
proof -
  let ?n = "length df" and ?l = "nat lag"
  have "dropna (map (assign_row lag df) [0..<?n]) =
        filter (\<lambda>r. \<not> has_na r) (map (assign_row lag df) [min ?l ?n..<?n])"
    unfolding dropna_def
    by (rule filter_upt_prefix_false) (use early_row_has_na in auto)
  also have "\<dots> = map (assign_row lag df) [min ?l ?n..<?n]"
    using assms late_row_no_na by (auto simp: filter_id_conv)
  finally show ?thesis .
qed

section \<open>The six-hourly track with lag 5\<close>

lemma sort_six_hourly: "sort_key time (six_hourly t0 la lo p) = six_hourly t0 la lo p"
  by (simp add: six_hourly_def)

lemma length_six_hourly: "length (six_hourly t0 la lo p) = 6"
  by (simp add: six_hourly_def)

text \<open>
  Observation 5 is 30 hours after observation 0. The seconds component of one day and six
  hours is 21600, so the code's divisor is that of a six-hour step.
\<close>

lemma lag_seconds_six_hourly:
  "lag_seconds 5 (six_hourly t0 la lo p) = [None, None, None, None, None, Some 21600]"
  by (simp add: lag_seconds_def six_hourly_def shift_def dt_seconds_def)

lemma upt_5_6: "[5..<6] = [5]"
  by (simp add: upt_rec)

lemma prep_six_hourly:
  "prep_hurricane_data (six_hourly t0 la lo p) 5 = Inr [assign_row 5 (six_hourly t0 la lo p) 5]"
proof -
  let ?df = "six_hourly t0 la lo p"
  have nz: "lag_seconds 5 ?df ! i \<noteq> Some 0" if "i < length ?df" "5 \<le> int i" for i
  proof -
    from that have "i = 5" by (simp add: length_six_hourly)
    then show ?thesis by (simp add: lag_seconds_six_hourly)
  qed
  have "dropna (map (assign_row 5 ?df) [0..<length ?df]) =
        map (assign_row 5 ?df) [min (nat 5) (length ?df)..<length ?df]"
    by (rule dropna_exact) (use nz in auto)
  then have "dropna (map (assign_row 5 ?df) [0..<length ?df]) = [assign_row 5 ?df 5]"
    by (simp add: length_six_hourly upt_5_6)
  moreover have "?df \<noteq> []" by (simp add: six_hourly_def)
  ultimately show ?thesis
    by (simp add: prep_hurricane_data_def sort_six_hourly)
qed

lemma max_wind_six: "max_wind (assign_row 5 (six_hourly t0 la lo p) 5) = Fin 55"
  by (simp add: assign_row_def max_wind_col_def cummax_def six_hourly_def)

lemma delta_wind_six: "delta_wind (assign_row 5 (six_hourly t0 la lo p) 5) = Fin 25"
  by (simp add: assign_row_def delta_wind_col_nth length_six_hourly lag_seconds_six_hourly
        div_const_def)
     (simp add: six_hourly_def cummax_def shift_def)

lemma zonal_speed_six:
  "zonal_speed (assign_row 5 (six_hourly t0 la lo p) 5) = Fin ((la 5 - la 0) / 6)"
  by (simp add: assign_row_def zonal_speed_col_nth length_six_hourly lag_seconds_six_hourly
        div_const_def)
     (simp add: six_hourly_def shift_def)

lemma meridonal_speed_six:
  "meridonal_speed (assign_row 5 (six_hourly t0 la lo p) 5) = Fin ((lo 5 - lo 0) / 6)"
  by (simp add: assign_row_def meridonal_speed_col_nth length_six_hourly lag_seconds_six_hourly
        div_const_def)
     (simp add: six_hourly_def shift_def)

lemma days_of_example: "days_of 1600236000000000000 = 18521"
  by (simp add: days_of_def)

lemma civil_from_days_example: "civil_from_days 18521 = (2020, 9, 16)"
  by code_simp

text \<open>
  C1. Six observations six hours apart with winds 30, 35, 40, 45, 50, 55 and lag 5 give a
  table of exactly one row whose \<open>max_wind\<close> is 55. Its \<open>delta_wind\<close> is 25, not
  \<open>(55 - 30) / 5 = 5\<close>: the wind difference is divided by the seconds component of the
  30 hours elapsed (six hours, one unit), not by the five six-hour units elapsed.
\<close>

theorem six_hourly_delta_wind:
  "\<exists>r. prep_hurricane_data (six_hourly t0 la lo p) 5 = Inr [r]
       \<and> max_wind r = Fin 55 \<and> delta_wind r = Fin 25"
  by (simp add: prep_six_hourly max_wind_six delta_wind_six)

section \<open>Row count of the feature table\<close>

















lemma length_example_track: "length example_track = 6"
  by (simp add: example_track_def length_six_hourly)


section \<open>The speeds of the example track\<close>

text \<open>
  C3. On the example track with lag 5 the one row of the table is 30 hours after the
  first observation, 5 degrees further north and 5 degrees further west. Its
  \<open>zonal_speed\<close> is \<open>5 / 6\<close> and its \<open>meridonal_speed\<close> is \<open>- 5 / 6\<close>: the position
  differences are divided by 6, the hours in the seconds component of the elapsed time,
  not by the 30 hours elapsed (which would give \<open>1 / 6\<close> and \<open>- 1 / 6\<close>).
\<close>

theorem example_track_features:
  "prep_hurricane_data example_track 5 =
     Inr [\<lparr> row_time = 1600236000000000000, row_wind = 55, row_lat = 15, row_lon = - 55,
            row_pressure = 995, max_wind = Fin 55, delta_wind = Fin 25,
            min_pressure = Fin 995, zonal_speed = Fin (5 / 6),
            meridonal_speed = Fin (- (5 / 6)), year = 2020, month = 9, day = 16, hour = 6 \<rparr>]"
proof -
  let ?df = "six_hourly 1600128000000000000 (\<lambda>k. 10 + of_nat k) (\<lambda>k. - 50 - of_nat k)
               (\<lambda>k. 1000 - of_nat k)"
  let ?r = "assign_row 5 ?df 5"
  have "row_time ?r = 1600236000000000000" "row_wind ?r = 55" "row_lat ?r = 15"
       "row_lon ?r = - 55" "row_pressure ?r = 995"
    by (simp_all add: assign_row_def six_hourly_def)
  moreover have "max_wind ?r = Fin 55" "delta_wind ?r = Fin 25"
    by (simp_all add: max_wind_six delta_wind_six)
  moreover have "min_pressure ?r = Fin 995"
    by (simp add: assign_row_def min_pressure_col_def cummin_def six_hourly_def)
  moreover have "zonal_speed ?r = Fin (5 / 6)" "meridonal_speed ?r = Fin (- (5 / 6))"
    by (simp_all add: zonal_speed_six meridonal_speed_six)
  moreover have "year ?r = 2020" "month ?r = 9" "day ?r = 16" "hour ?r = 6"
    by (simp_all add: assign_row_def six_hourly_def dt_year_def dt_month_def dt_day_def
          dt_hour_def days_of_example civil_from_days_example)
  ultimately have "?r = \<lparr> row_time = 1600236000000000000, row_wind = 55, row_lat = 15,
            row_lon = - 55, row_pressure = 995, max_wind = Fin 55, delta_wind = Fin 25,
            min_pressure = Fin 995, zonal_speed = Fin (5 / 6),
            meridonal_speed = Fin (- (5 / 6)), year = 2020, month = 9, day = 16, hour = 6 \<rparr>"
    by (cases ?r) simp
  then show ?thesis
    by (simp add: example_track_def prep_six_hourly)
qed

section \<open>The sparse feature vector\<close>

lemmas run_defs = and_then_def emit_def ret_def raise_def lift_def bind_err_def


text \<open>
  C4. For every length \<open>N\<close>, every index \<open>0 \<le> i < N\<close> and every value \<open>v\<close> the
  sparse vector has length \<open>N\<close>, holds \<open>v\<close> at position \<open>i\<close> and \<open>0\<close> everywhere
  else; and the descaling step built on it returns entry \<open>i\<close> of the first row of the
  inverse-transformed array, whatever the other entries are.
\<close>

theorem generate_sparse_feature_vector_in_range:
  assumes "0 \<le> i" "i < N"
  shows "\<exists>xs. generate_sparse_feature_vector N i v = Inr xs
           \<and> length xs = nat N
           \<and> xs ! nat i = v
           \<and> (\<forall>j < nat N. j \<noteq> nat i \<longrightarrow> xs ! j = Num 0)
           \<and> (\<forall>sc ys rest. sc [xs] = Inr (Arr (Arr ys # rest)) \<and> nat i < length ys
                 \<longrightarrow> descale sc [] N i v (nat i) = Inr ([xs], ys ! nat i))"
proof -
  let ?xs = "(replicate (nat N) (Num 0))[nat i := v]"
  have g: "generate_sparse_feature_vector N i v = Inr ?xs"
    using assms by (simp add: generate_sparse_feature_vector_def Let_def)
  have "length ?xs = nat N" by simp
  moreover have "?xs ! nat i = v" using assms by simp
  moreover have "\<forall>j < nat N. j \<noteq> nat i \<longrightarrow> ?xs ! j = Num 0" by simp
  moreover have "\<forall>sc ys rest. sc [?xs] = Inr (Arr (Arr ys # rest)) \<and> nat i < length ys
                 \<longrightarrow> descale sc [] N i v (nat i) = Inr ([?xs], ys ! nat i)"
    by (simp add: descale_def g bind_err_def)
  ultimately show ?thesis using g by blast
qed

text \<open>
  The scenario of the specification: 0.42 at feature index 2 of an 11-dimensional scaler.
\<close>

lemma example_scaler_row:
  "example_scaler [[a0, a1, a2, a3, a4, a5, a6, a7, a8, a9, a10]] =
     Inr (Arr [Arr [rescale 2 0 a0, rescale 3 100 a1, rescale 4 200 a2, rescale 5 300 a3,
                    rescale 6 400 a4, rescale 7 500 a5, rescale 8 600 a6, rescale 9 700 a7,
                    rescale 10 800 a8, rescale 11 900 a9, rescale 12 1000 a10]])"
  by (simp add: example_scaler_def upt_rec)

lemma example_scaler_wind:
  "example_scaler [[Num 0, Num 0, Num (21 / 50), Num 0, Num 0, Num 0, Num 0, Num 0, Num 0, Num 0, Num 0]]
     = Inr (Arr [Arr [Num 0, Num 100, Num (5042 / 25), Num 300, Num 400, Num 500, Num 600,
                      Num 700, Num 800, Num 900, Num 1000]])"
  by (simp add: example_scaler_row)

theorem generate_sparse_feature_vector_in_range_witness:
  "generate_sparse_feature_vector 11 2 (Num (21 / 50))
     = Inr [Num 0, Num 0, Num (21 / 50), Num 0, Num 0, Num 0, Num 0, Num 0, Num 0, Num 0, Num 0]
   \<and> descale example_scaler [] 11 2 (Num (21 / 50)) 2
     = Inr ([[Num 0, Num 0, Num (21 / 50), Num 0, Num 0, Num 0, Num 0, Num 0, Num 0, Num 0, Num 0]],
            Num (5042 / 25))"
proof -
  let ?v = "[Num 0, Num 0, Num (21 / 50), Num 0, Num 0, Num 0, Num 0, Num 0, Num 0, Num 0, Num 0]"
  have g: "generate_sparse_feature_vector 11 2 (Num (21 / 50)) = Inr ?v"
    by (simp add: generate_sparse_feature_vector_def Let_def numeral_eq_Suc)
  from generate_sparse_feature_vector_in_range [of 2 11 "Num (21 / 50)"]
  obtain xs where xs: "generate_sparse_feature_vector 11 2 (Num (21 / 50)) = Inr xs"
    and rd: "\<forall>sc ys rest. sc [xs] = Inr (Arr (Arr ys # rest)) \<and> nat 2 < length ys
                 \<longrightarrow> descale sc [] 11 2 (Num (21 / 50)) (nat 2) = Inr ([xs], ys ! nat 2)"
    by auto
  from xs g have "xs = ?v" by simp
  with rd example_scaler_wind
  have "descale example_scaler [] 11 2 (Num (21 / 50)) (nat 2) = Inr ([?v], Num (5042 / 25))"
    by fastforce
  then show ?thesis using g by simp
qed

section \<open>Indices outside the vector\<close>

text \<open>
  C7, as stated, fails for negative indices: \<open>feature_index = -1\<close> with \<open>N = 11\<close> is
  outside \<open>0 \<le> feature_index < N\<close>, and the function returns a vector with the value
  in the last position instead of failing.
\<close>

theorem negative_index_counterexample:
  "generate_sparse_feature_vector 11 (- 1) (Num (21 / 50))
     = Inr [Num 0, Num 0, Num 0, Num 0, Num 0, Num 0, Num 0, Num 0, Num 0, Num 0, Num (21 / 50)]
   \<and> descale example_scaler [] 11 (- 1) (Num (21 / 50)) 10
     = Inr ([[Num 0, Num 0, Num 0, Num 0, Num 0, Num 0, Num 0, Num 0, Num 0, Num 0,
              Num (21 / 50)]], Num (25126 / 25))"
proof -
  have g: "generate_sparse_feature_vector 11 (- 1) (Num (21 / 50))
     = Inr [Num 0, Num 0, Num 0, Num 0, Num 0, Num 0, Num 0, Num 0, Num 0, Num 0, Num (21 / 50)]"
    by (simp add: generate_sparse_feature_vector_def Let_def numeral_eq_Suc)
  then show ?thesis
    by (simp add: descale_def bind_err_def example_scaler_row)
qed

text \<open>
  C7, amended. For a vector length \<open>N \<ge> 0\<close>: when \<open>feature_index \<ge> N\<close> or
  \<open>feature_index < -N\<close> the function raises \<open>IndexError\<close> and so does every
  descaling step built on it; when \<open>-N \<le> feature_index < 0\<close> it raises nothing and
  writes the value at position \<open>N + feature_index\<close>.
\<close>

theorem generate_sparse_feature_vector_out_of_range:
  assumes "0 \<le> N"
  shows "(N \<le> i \<or> i < - N \<longrightarrow>
            generate_sparse_feature_vector N i v = Inl IndexError
            \<and> descale sc xs N i v k = Inl IndexError)
       \<and> (- N \<le> i \<and> i < 0 \<longrightarrow>
            generate_sparse_feature_vector N i v
              = Inr ((replicate (nat N) (Num 0))[nat (N + i) := v]))"
  using assms by (auto simp: generate_sparse_feature_vector_def Let_def descale_def bind_err_def)

theorem generate_sparse_feature_vector_out_of_range_witness:
  "generate_sparse_feature_vector 11 11 (Num 1) = Inl IndexError
   \<and> generate_sparse_feature_vector 11 (- 12) (Num 1) = Inl IndexError
   \<and> descale example_scaler [] 11 11 (Num 1) 11 = Inl IndexError
   \<and> generate_sparse_feature_vector 11 (- 11) (Num 1)
       = Inr ((replicate 11 (Num 0))[0 := Num 1])"
  using generate_sparse_feature_vector_out_of_range [of 11 11 "Num 1" example_scaler "[]" 11]
        generate_sparse_feature_vector_out_of_range [of 11 "- 12" "Num 1" example_scaler "[]" 11]
        generate_sparse_feature_vector_out_of_range [of 11 "- 11" "Num 1" example_scaler "[]" 11]
  by simp

section \<open>Constructing the adapter\<close>

text \<open>
  With the class as bd_lstm_td.py defines it, the constructor call does not bind
  (\<open>model_path\<close> is not a parameter) and the run ends with \<open>TypeError\<close> right after
  printing the model type, before any storm is fetched. The statements below about the
  storm loop are therefore made for a class whose constructor accepts the call.
\<close>

lemma construct_src_class: "construct BidrectionalLstmHurricaneModel = Inl (TypeError ''__init__'')"
  by (simp add: construct_def call_binds_def BidrectionalLstmHurricaneModel_def)

lemma run_live_inference_src_class:
  "run_live_inference BidrectionalLstmHurricaneModel sc universal typesearch live_storms =
     ([Print_model_type (select_model_type universal typesearch)], Inl (TypeError ''__init__''))"
  by (simp add: run_live_inference_def construct_src_class run_defs)

lemma construct_example_adapter: "construct example_adapter = Inr ()"
  by (simp add: construct_def call_binds_def example_adapter_def)

lemma run_live_inference_constructed:
  assumes "construct cls = Inr ()"
  shows "run_live_inference cls sc universal typesearch (Some storms) =
     (case for_each storms (process_storm cls sc (select_model_type universal typesearch) 5)
             initial_locals of
        (tr, r) \<Rightarrow> (Print_model_type (select_model_type universal typesearch) # tr, r))"
  using assms by (simp add: run_live_inference_def run_defs split: prod.splits)

section \<open>Descaling in universal mode\<close>

lemma sparse_wind: "generate_sparse_feature_vector 11 2 v = Inr (wind_vector v)"
  by (simp add: generate_sparse_feature_vector_def wind_vector_def Let_def numeral_eq_Suc)



lemma descale_read:
  assumes "generate_sparse_feature_vector n place v = Inr vec"
    and "sc (xs @ [vec]) = Inr (Arr (Arr ys # others))" "k < length ys"
  shows "descale sc xs n place v k = Inr (xs @ [vec], ys ! k)"
  using assms by (simp add: descale_def bind_err_def)

lemma process_storm_long_enough:
  assumes "5 < length (entries st)" "prep_hurricane_data (entries st) lag = Inr df"
    and "model lv = Adapter" "predict_method cls = Some predict" "predict df lag = Inr result"
  shows "process_storm cls sc model_type lag st lv =
     (case (if model_type = ''universal''
            then for_each [0..<4] (universal_day sc result) lv
            else for_each [0..<3] (singular_day sc model_type result) lv)
      of (tr, r) \<Rightarrow> ([Print_running (storm_name st), Predict df lag, Print_rule] @ tr, r))"
  using assms by (simp add: process_storm_def run_defs split: prod.splits)





lemma prep_example_track:
  "prep_hurricane_data example_track 5 = Inr [assign_row 5 example_track 5]"
  by (simp add: example_track_def prep_six_hourly)

lemma sort_entries_example_storm: "sort_key time (entries example_storm) = example_track"
  by (simp add: entries_def example_storm_def example_track_def six_hourly_def)

lemma length_entries_example_storm: "length (entries example_storm) = 6"
  by (simp add: entries_def example_storm_def length_example_track)

lemma prep_example_storm:
  "prep_hurricane_data (entries example_storm) 5 = Inr [assign_row 5 example_track 5]"
proof -
  have "entries example_storm \<noteq> []"
    by (simp add: entries_def)
  then have "prep_hurricane_data (entries example_storm) 5 =
        Inr (dropna (map (assign_row 5 example_track) [0..<length example_track]))"
    unfolding prep_hurricane_data_def sort_entries_example_storm Let_def
    by simp
  moreover have "prep_hurricane_data example_track 5 =
        Inr (dropna (map (assign_row 5 example_track) [0..<length example_track]))"
    unfolding prep_hurricane_data_def Let_def
    by (simp add: example_track_def sort_six_hourly six_hourly_def)
  ultimately show ?thesis by (simp add: prep_example_track)
qed



section \<open>Storms with too few observations\<close>

lemma prep_nonempty:
  "observations \<noteq> [] \<Longrightarrow> \<exists>df. prep_hurricane_data observations lag = Inr df"
  by (simp add: prep_hurricane_data_def)

lemma process_storm_short:
  assumes "length (entries st) \<le> 5"
  shows "process_storm cls sc model_type lag st lv =
           ([Print_running (storm_name st), Print_not_enough (storm_name st)], Inr lv)"
proof -
  have "entries st \<noteq> []" by (simp add: entries_def)
  from prep_nonempty [OF this] obtain df where "prep_hurricane_data (entries st) lag = Inr df"
    by blast
  then show ?thesis
    using assms by (simp add: process_storm_def run_defs)
qed

lemma for_each_append:
  "for_each (xs @ ys) body s = and_then (for_each xs body s) (for_each ys body)"
proof (induction xs arbitrary: s)
  case Nil
  then show ?case by (simp add: run_defs split: prod.splits)
next
  case (Cons x xs)
  show ?case
    by (cases "body x s") (auto simp: Cons run_defs split: sum.splits prod.splits)
qed

lemma for_each_short:
  assumes "list_all (\<lambda>s. length (entries s) \<le> 5) storms"
  shows "for_each storms (process_storm cls sc model_type lag) lv = (skip_events storms, Inr lv)"
  using assms
proof (induction storms)
  case Nil
  then show ?case by (simp add: skip_events_def ret_def)
next
  case (Cons s storms)
  then show ?case
    by (simp add: process_storm_short skip_events_def and_then_def)
qed



section \<open>The singular latitude model\<close>

lemma singular_lat_first_day:
  assumes "lat_result lv = None"
  shows "for_each [0..<3] (singular_day sc ''lat'' result) lv =
           ([], Inl (UnboundLocalError ''lat_result''))"
  using assms by (simp add: upt_rec singular_day_def run_defs)

text \<open>
  C10. Given a class whose constructor accepts the call and that has \<open>predict\<close>: with a
  singular model of type \<open>"lat"\<close> (not universal, configuration name \<open>sequential_1\<close>),
  the first storm that has more than five entries and for which the model returns an
  output ends the run with \<open>UnboundLocalError\<close> (a \<open>NameError\<close>) for \<open>lat_result\<close>:
  the run has printed the skipped storms, called the model and printed the rule, and
  prints no descaled latitude. The wind and the longitude branch bind their list first:
  from the same initial state, where all three lists are unbound, their first day prints
  its value.
\<close>

theorem singular_lat_unbound_local:
  assumes "construct cls = Inr ()" and "predict_method cls = Some predict"
    and "list_all (\<lambda>s. length (entries s) \<le> 5) skipped"
    and "5 < length (entries st)"
    and "prep_hurricane_data (entries st) 5 = Inr df"
    and "predict df 5 = Inr result"
  shows "run_live_inference cls sc False ''sequential_1'' (Some (skipped @ st # rest)) =
           (Print_model_type ''lat'' # skip_events skipped
              @ [Print_running (storm_name st), Predict df 5, Print_rule],
            Inl (UnboundLocalError ''lat_result''))
     \<and> (subscript result 0 = Inr v \<and> descale sc [] 11 2 v 2 = Inr (xs, y) \<longrightarrow>
          singular_day sc ''wind'' result 0 initial_locals =
            ([Print_result 1 ''singular'' ''wind'' y],
             Inr (initial_locals\<lparr> wind_result := Some xs \<rparr>)))
     \<and> (subscript result 0 = Inr v \<and> descale sc [] 11 1 v 1 = Inr (xs, y) \<longrightarrow>
          singular_day sc ''long'' result 0 initial_locals =
            ([Print_result 1 ''singular'' ''long'' y],
             Inr (initial_locals\<lparr> model := Str ''long'', long_result := Some xs \<rparr>)))"
proof -
  let ?body = "process_storm cls sc ''lat'' 5"
  have init: "model initial_locals = Adapter" "lat_result initial_locals = None"
    by (simp_all add: initial_locals_def)
  have st: "?body st initial_locals =
        ([Print_running (storm_name st), Predict df 5, Print_rule],
         Inl (UnboundLocalError ''lat_result''))"
    using process_storm_long_enough [OF assms(4,5) init(1) assms(2,6), of sc "''lat''"]
    by (simp add: singular_lat_first_day init(2))
  have "for_each (skipped @ st # rest) ?body initial_locals =
        and_then (for_each skipped ?body initial_locals) (for_each (st # rest) ?body)"
    by (rule for_each_append)
  also have "\<dots> = (skip_events skipped @ [Print_running (storm_name st), Predict df 5, Print_rule],
         Inl (UnboundLocalError ''lat_result''))"
    using for_each_short [OF assms(3), of cls sc "''lat''" 5 initial_locals] st
    by (simp add: and_then_def)
  finally have run: "run_live_inference cls sc False ''sequential_1'' (Some (skipped @ st # rest)) =
           (Print_model_type ''lat'' # skip_events skipped
              @ [Print_running (storm_name st), Predict df 5, Print_rule],
            Inl (UnboundLocalError ''lat_result''))"
    using run_live_inference_constructed [OF assms(1), of sc False "''sequential_1''"
            "skipped @ st # rest"]
    by (simp add: select_model_type_def)
  have wind: "singular_day sc ''wind'' result 0 initial_locals =
            ([Print_result 1 ''singular'' ''wind'' y],
             Inr (initial_locals\<lparr> wind_result := Some xs \<rparr>))"
    if "subscript result 0 = Inr v" "descale sc [] 11 2 v 2 = Inr (xs, y)"
    using that by (simp add: singular_day_def run_defs)
  have long: "singular_day sc ''long'' result 0 initial_locals =
            ([Print_result 1 ''singular'' ''long'' y],
             Inr (initial_locals\<lparr> model := Str ''long'', long_result := Some xs \<rparr>))"
    if "subscript result 0 = Inr v" "descale sc [] 11 1 v 1 = Inr (xs, y)"
    using that by (simp add: singular_day_def run_defs)
  from run wind long show ?thesis by blast
qed

theorem singular_lat_unbound_local_witness:
  "run_live_inference example_adapter example_scaler False ''sequential_1''
       (Some [short_storm, example_storm]) =
     ([Print_model_type ''lat'', Print_running ''SHORT'', Print_not_enough ''SHORT'',
       Print_running ''TEST'', Predict [assign_row 5 example_track 5] 5, Print_rule],
      Inl (UnboundLocalError ''lat_result''))
   \<and> singular_day example_scaler ''wind'' example_result 0 initial_locals =
       ([Print_result 1 ''singular'' ''wind'' (Arr [Num 0, Num 10, Num 20])],
        Inr (initial_locals\<lparr> wind_result := Some [wind_vector (Arr [Num 0, Num 10, Num 20])] \<rparr>))"
proof -
  have p: "predict_method example_adapter = Some example_predict"
    by (simp add: example_adapter_def)
  have a: "list_all (\<lambda>s. length (entries s) \<le> 5) [short_storm]"
    by (simp add: entries_def short_storm_def length_example_track)
  have b: "5 < length (entries example_storm)"
    by (simp add: length_entries_example_storm)
  have d: "example_predict [assign_row 5 example_track 5] 5 = Inr example_result"
    by (simp add: example_predict_def)
  have s: "subscript example_result 0 = Inr (Arr [Num 0, Num 10, Num 20])"
    by (simp add: example_result_def)
  have w: "descale example_scaler [] 11 2 (Arr [Num 0, Num 10, Num 20]) 2 =
             Inr ([wind_vector (Arr [Num 0, Num 10, Num 20])], Arr [Num 0, Num 10, Num 20])"
    using descale_read [OF sparse_wind, of example_scaler "[]" "Arr [Num 0, Num 10, Num 20]"]
    by (simp add: wind_vector_def example_scaler_row)
  from construct_example_adapter p a b prep_example_storm d s w
    singular_lat_unbound_local [where cls = example_adapter and predict = example_predict
      and skipped = "[short_storm]" and st = example_storm
      and df = "[assign_row 5 example_track 5]" and result = example_result
      and sc = example_scaler and rest = "[]" and v = "Arr [Num 0, Num 10, Num 20]"
      and xs = "[wind_vector (Arr [Num 0, Num 10, Num 20])]"
      and y = "Arr [Num 0, Num 10, Num 20]"]
  show ?thesis
    by (simp add: skip_events_def short_storm_def example_storm_def)
qed

end
